theory Spec2Isabelle
  imports Complex_Main "HOL-Library.Sublist" "HOL-Library.Word"
begin

section \<open>The data frame\<close>

text \<open>
  The dashboard (\<^verbatim>\<open>my_first_app.py\<close>, and \<^verbatim>\<open>test.py\<close>, its later revision) loads one
  table into a pandas data frame \<^verbatim>\<open>df\<close> and computes everything from it. A data frame
  is an ordered sequence of named columns; each column has one dtype, which is what
  \<^verbatim>\<open>select_dtypes\<close> looks at. A missing cell (\<^verbatim>\<open>NaN\<close>, \<^verbatim>\<open>None\<close>, \<^verbatim>\<open>NaT\<close>) is \<open>None\<close>.
  Floating-point numbers are idealised as reals; the values that are not numbers
  (\<^verbatim>\<open>nan\<close>, \<^verbatim>\<open>inf\<close>) are kept explicit wherever a division can produce them.
  \<open>Number\<close> is a column of dtype \<^verbatim>\<open>float64\<close>. \<open>Int64\<close> is a column of dtype \<^verbatim>\<open>int64\<close>, which
  is what a file column of whole numbers without a gap is read as: it holds no missing
  cell, and its cells are 64-bit two's complement integers, whose arithmetic wraps
  around.
\<close>

datatype coldata =
    Number "real option list"
  | Int64 "64 word list"
  | Object "string option list"
  | Category "string option list"
  | Boolean "bool list"
  | Datetime "int option list"

type_synonym dataset = "(string \<times> coldata) list"

text \<open>\<^verbatim>\<open>Series.dropna()\<close>: the present values, in order.\<close>

definition dropna :: "'a option list \<Rightarrow> 'a list" where
  "dropna cells = List.map_filter (\<lambda>c. c) cells"

text \<open>
  \<^verbatim>\<open>Series.isnull()\<close>: one flag per row. An \<^verbatim>\<open>int64\<close> or \<^verbatim>\<open>bool\<close> column cannot hold a
  missing cell.
\<close>

fun isnull :: "coldata \<Rightarrow> bool list" where
  "isnull (Number cells) = map (\<lambda>c. c = None) cells"
| "isnull (Int64 cells) = map (\<lambda>c. False) cells"
| "isnull (Object cells) = map (\<lambda>c. c = None) cells"
| "isnull (Category cells) = map (\<lambda>c. c = None) cells"
| "isnull (Boolean cells) = map (\<lambda>c. False) cells"
| "isnull (Datetime cells) = map (\<lambda>c. c = None) cells"

text \<open>\<^verbatim>\<open>df.shape[0]\<close> and \<^verbatim>\<open>df.shape[1]\<close>. All columns of a data frame have the same length.\<close>

definition col_length :: "coldata \<Rightarrow> nat" where
  "col_length c = length (isnull c)"

definition total_rows :: "dataset \<Rightarrow> nat" where
  "total_rows df = (case df of [] \<Rightarrow> 0 | (name, c) # rest \<Rightarrow> col_length c)"

definition total_columns :: "dataset \<Rightarrow> nat" where
  "total_columns df = length df"

definition rectangular :: "dataset \<Rightarrow> bool" where
  "rectangular df = list_all (\<lambda>(name, c). col_length c = total_rows df) df"

text \<open>
  \<^verbatim>\<open>df[name]\<close> for a column the code then uses as numbers, respectively as labels. The
  names come from the lists below through a select box, so the lookup cannot miss in the
  program; \<open>None\<close> stands for a name that is no column of that kind. The statistics of
  the libraries (means, the correlation, the t-test) compute in floating point:
  \<open>as_numbers\<close> is the cells of a numeric column as they read them, an integer as the
  number it stands for.
\<close>

definition int_values :: "64 word list \<Rightarrow> real option list" where
  "int_values cells = map (\<lambda>w. Some (real_of_int (sint w))) cells"

definition as_numbers :: "coldata \<Rightarrow> real option list option" where
  "as_numbers c =
     (case c of
        Number cells \<Rightarrow> Some cells
      | Int64 cells \<Rightarrow> Some (int_values cells)
      | _ \<Rightarrow> None)"

definition number_col :: "dataset \<Rightarrow> string \<Rightarrow> real option list option" where
  "number_col df name =
     (case map_of df name of None \<Rightarrow> None | Some c \<Rightarrow> as_numbers c)"

definition label_col :: "dataset \<Rightarrow> string \<Rightarrow> string option list option" where
  "label_col df name =
     (case map_of df name of
        Some (Object cells) \<Rightarrow> Some cells
      | Some (Category cells) \<Rightarrow> Some cells
      | _ \<Rightarrow> None)"

section \<open>Column classification\<close>

text \<open>
  \<^verbatim>\<open>categorical_cols = df.select_dtypes(include=["object", "category"]).columns.tolist()\<close>
  \<^verbatim>\<open>numeric_cols = df.select_dtypes(include=["number"]).columns.tolist()\<close>
\<close>

fun is_categorical :: "coldata \<Rightarrow> bool" where
  "is_categorical (Object cells) = True"
| "is_categorical (Category cells) = True"
| "is_categorical c = False"

fun is_number :: "coldata \<Rightarrow> bool" where
  "is_number (Number cells) = True"
| "is_number (Int64 cells) = True"
| "is_number c = False"

definition categorical_cols :: "dataset \<Rightarrow> string list" where
  "categorical_cols df = map fst (filter (\<lambda>(name, c). is_categorical c) df)"

definition numeric_cols :: "dataset \<Rightarrow> string list" where
  "numeric_cols df = map fst (filter (\<lambda>(name, c). is_number c) df)"

text \<open>A column with no present value at all.\<close>

definition all_missing :: "coldata \<Rightarrow> bool" where
  "all_missing c = list_all (\<lambda>b. b) (isnull c)"

section \<open>The KPI dashboard\<close>

text \<open>
  \<^verbatim>\<open>Series.sum(skipna=True)\<close> and \<^verbatim>\<open>Series.mean(skipna=True)\<close> of a numeric column. The mean
  of no value is \<^verbatim>\<open>nan\<close>, here \<open>None\<close>; the sum of no value is 0. The sum of an \<^verbatim>\<open>int64\<close>
  column is taken in \<^verbatim>\<open>int64\<close> and wraps around; its mean is taken in floating point.
\<close>

definition mean :: "real list \<Rightarrow> real" where
  "mean xs = sum_list xs / real (length xs)"

definition nanmean :: "real option list \<Rightarrow> real option" where
  "nanmean cells = (if dropna cells = [] then None else Some (mean (dropna cells)))"

definition col_sum :: "real option list \<Rightarrow> real" where
  "col_sum cells = sum_list (dropna cells)"

definition col_mean :: "real option list \<Rightarrow> real option" where
  "col_mean cells = nanmean cells"

definition col_sum_int64 :: "64 word list \<Rightarrow> int" where
  "col_sum_int64 cells = sint (sum_list cells)"

text \<open>\<^verbatim>\<open>top_numeric = numeric_cols[:3]\<close>\<close>

definition top_numeric :: "dataset \<Rightarrow> string list" where
  "top_numeric df = take 3 (numeric_cols df)"

text \<open>
  One card per name of \<^verbatim>\<open>top_numeric\<close>: the label, the sum and the average. The loop
  reads \<^verbatim>\<open>df[col_name]\<close>; \<open>those\<close> is \<open>None\<close> when a lookup misses.
\<close>

definition kpi_card :: "dataset \<Rightarrow> string \<Rightarrow> (string \<times> real \<times> real option) option" where
  "kpi_card df col_name =
     (case map_of df col_name of
        Some (Number cells) \<Rightarrow> Some (col_name, col_sum cells, col_mean cells)
      | Some (Int64 cells) \<Rightarrow>
          Some (col_name, real_of_int (col_sum_int64 cells), col_mean (int_values cells))
      | _ \<Rightarrow> None)"

text \<open>
  \<^verbatim>\<open>missing = df.isnull().mean().mean() * 100\<close>: the mean of a column of flags is the
  share of \<^verbatim>\<open>True\<close>, \<^verbatim>\<open>nan\<close> for a column of no row; the second mean runs over the columns
  and skips \<^verbatim>\<open>nan\<close>. \<open>missing_ratio\<close> is the value before the factor 100.
\<close>

definition null_count :: "coldata \<Rightarrow> nat" where
  "null_count c = length (filter (\<lambda>b. b) (isnull c))"

definition null_share :: "coldata \<Rightarrow> real option" where
  "null_share c =
     (if col_length c = 0 then None else Some (real (null_count c) / real (col_length c)))"

definition missing_ratio :: "dataset \<Rightarrow> real option" where
  "missing_ratio df = nanmean (map (\<lambda>(name, c). null_share c) df)"

definition missing :: "dataset \<Rightarrow> real option" where
  "missing df = map_option (\<lambda>r. r * 100) (missing_ratio df)"

record dashboard =
  cards :: "(string \<times> real \<times> real option) list"
  rows_metric :: nat
  columns_metric :: nat
  missing_metric :: "real option"

datatype kpis =
    No_Numerical_Columns
  | Dashboard dashboard
  | Key_Error

text \<open>
  The section of \<^verbatim>\<open>test.py\<close>: a warning when there is no numeric column, the cards and
  the three overview metrics otherwise.
\<close>

definition kpi_cards :: "dataset \<Rightarrow> (string \<times> real \<times> real option) list option" where
  "kpi_cards df = those (map (kpi_card df) (top_numeric df))"

definition auto_kpis :: "dataset \<Rightarrow> kpis" where
  "auto_kpis df =
     (if length (numeric_cols df) = 0 then No_Numerical_Columns
      else
        (case kpi_cards df of
           None \<Rightarrow> Key_Error
         | Some cs \<Rightarrow>
             Dashboard \<lparr>cards = cs, rows_metric = total_rows df,
               columns_metric = total_columns df, missing_metric = missing df\<rparr>))"

section \<open>Correlation analysis\<close>

datatype corr_method = Pearson | Spearman | Kendall

text \<open>The rows where both columns have a value (pairwise-complete deletion).\<close>

definition complete_pairs :: "real option list \<Rightarrow> real option list \<Rightarrow> (real \<times> real) list" where
  "complete_pairs xs ys =
     List.map_filter
       (\<lambda>(x, y). case x of None \<Rightarrow> None | Some a \<Rightarrow> (case y of None \<Rightarrow> None | Some b \<Rightarrow> Some (a, b)))
       (zip xs ys)"

text \<open>
  Modelled from the spec: \<^verbatim>\<open>DataFrame.corr(method=...)\<close> is a routine of the pandas
  library, which is not part of the sources. The three coefficients follow the spec's
  words (the method's standard definition: Pearson from the covariance, Spearman from
  the ranks, Kendall from the concordant and discordant pairs, each over the complete
  pairs of the two columns), and an entry is undefined (\<^verbatim>\<open>nan\<close>, here \<open>None\<close>) where its
  denominator is zero or no complete pair is left, as the spec has it for a column
  without variance.
\<close>

definition sum_sq_dev :: "real list \<Rightarrow> real" where
  "sum_sq_dev xs = (\<Sum>x\<leftarrow>xs. (x - mean xs) * (x - mean xs))"

definition sum_co_dev :: "(real \<times> real) list \<Rightarrow> real" where
  "sum_co_dev ps = (\<Sum>(x, y)\<leftarrow>ps. (x - mean (map fst ps)) * (y - mean (map snd ps)))"

definition pearson :: "(real \<times> real) list \<Rightarrow> real option" where
  "pearson ps =
     (let divisor = sqrt (sum_sq_dev (map fst ps) * sum_sq_dev (map snd ps))
      in if length ps < 1 then None
         else if divisor \<noteq> 0 then Some (sum_co_dev ps / divisor)
         else None)"

text \<open>Average ranks: tied values share the mean of the positions they occupy.\<close>

definition avg_rank :: "real list \<Rightarrow> real \<Rightarrow> real" where
  "avg_rank xs x =
     real (length (filter (\<lambda>y. y < x) xs)) + (real (length (filter (\<lambda>y. y = x) xs)) + 1) / 2"

definition rank :: "real list \<Rightarrow> real list" where
  "rank xs = map (avg_rank xs) xs"

definition spearman :: "(real \<times> real) list \<Rightarrow> real option" where
  "spearman ps = pearson (zip (rank (map fst ps)) (rank (map snd ps)))"

text \<open>The unordered pairs of rows, each once.\<close>

fun row_pairs :: "'a list \<Rightarrow> ('a \<times> 'a) list" where
  "row_pairs [] = []"
| "row_pairs (p # ps) = map (Pair p) ps @ row_pairs ps"

definition concordant :: "(real \<times> real) \<times> (real \<times> real) \<Rightarrow> bool" where
  "concordant pq = (case pq of ((x1, y1), (x2, y2)) \<Rightarrow> 0 < (x1 - x2) * (y1 - y2))"

definition discordant :: "(real \<times> real) \<times> (real \<times> real) \<Rightarrow> bool" where
  "discordant pq = (case pq of ((x1, y1), (x2, y2)) \<Rightarrow> (x1 - x2) * (y1 - y2) < 0)"

definition x_tied :: "(real \<times> real) \<times> (real \<times> real) \<Rightarrow> bool" where
  "x_tied pq = (case pq of ((x1, y1), (x2, y2)) \<Rightarrow> x1 = x2)"

definition y_tied :: "(real \<times> real) \<times> (real \<times> real) \<Rightarrow> bool" where
  "y_tied pq = (case pq of ((x1, y1), (x2, y2)) \<Rightarrow> y1 = y2)"

text \<open>Kendall's tau-b.\<close>

definition kendall :: "(real \<times> real) list \<Rightarrow> real option" where
  "kendall ps =
     (let rp = row_pairs ps;
          tot = length rp;
          con = length (filter concordant rp);
          dis = length (filter discordant rp);
          xtie = length (filter x_tied rp);
          ytie = length (filter y_tied rp)
      in if xtie = tot \<or> ytie = tot then None
         else Some ((real con - real dis) / sqrt (real (tot - xtie) * real (tot - ytie))))"

text \<open>
  One entry of the matrix, for the columns at positions \<open>i\<close> and \<open>j\<close>. For Kendall the
  diagonal is set to 1 without a computation, once the column has a value.
\<close>

definition corr_entry ::
  "corr_method \<Rightarrow> nat \<times> real option list \<Rightarrow> nat \<times> real option list \<Rightarrow> real option" where
  "corr_entry m a b =
     (let ps = complete_pairs (snd a) (snd b)
      in case m of
           Pearson \<Rightarrow> pearson ps
         | Spearman \<Rightarrow> spearman ps
         | Kendall \<Rightarrow>
             if length ps < 1 then None
             else if fst a = fst b then Some 1
             else kendall ps)"

definition corr :: "corr_method \<Rightarrow> real option list list \<Rightarrow> real option list list" where
  "corr m cols =
     (let numbered = zip [0..<length cols] cols
      in map (\<lambda>a. map (\<lambda>b. corr_entry m a b) numbered) numbered)"

text \<open>\<^verbatim>\<open>df[numeric_cols]\<close>: the numeric columns, in their order.\<close>

definition numeric_frame :: "dataset \<Rightarrow> real option list list" where
  "numeric_frame df = List.map_filter (\<lambda>(name, c). as_numbers c) df"

text \<open>
  The section of the program: the matrix is computed and drawn only under the guard
  \<^verbatim>\<open>if len(numeric_cols) >= 2\<close>, which has no \<^verbatim>\<open>else\<close>.
\<close>

definition correlate :: "dataset \<Rightarrow> corr_method \<Rightarrow> real option list list option" where
  "correlate df corr_method =
     (if length (numeric_cols df) \<ge> 2 then Some (corr corr_method (numeric_frame df))
      else None)"

section \<open>The independent t-test\<close>

text \<open>
  A floating-point result that a division by zero can turn into \<^verbatim>\<open>nan\<close> or an infinity.
  \<open>fdiv\<close> is the division of numpy, \<open>fless\<close> the comparison \<^verbatim>\<open><\<close>, which is false on
  \<^verbatim>\<open>nan\<close>.
\<close>

datatype fnum = Fin real | PInf | MInf | NaN

definition fdiv :: "real \<Rightarrow> real \<Rightarrow> fnum" where
  "fdiv x y =
     (if y \<noteq> 0 then Fin (x / y)
      else if 0 < x then PInf
      else if x < 0 then MInf
      else NaN)"

fun fless :: "fnum \<Rightarrow> real \<Rightarrow> bool" where
  "fless (Fin x) c = (x < c)"
| "fless MInf c = True"
| "fless PInf c = False"
| "fless NaN c = False"

text \<open>The unbiased sample variance (\<^verbatim>\<open>ddof=1\<close>).\<close>

definition variance :: "real list \<Rightarrow> real" where
  "variance xs = sum_sq_dev xs / (real (length xs) - 1)"

text \<open>
  The Welch--Satterthwaite approximation of the degrees of freedom, from the two
  samples' unbiased variances and sizes, as the spec's glossary names it.
\<close>

definition welch_satterthwaite_df :: "real list \<Rightarrow> real list \<Rightarrow> fnum" where
  "welch_satterthwaite_df a b =
     (let n1 = real (length a); n2 = real (length b);
          vn1 = variance a / n1; vn2 = variance b / n2
      in fdiv ((vn1 + vn2) * (vn1 + vn2)) (vn1 * vn1 / (n1 - 1) + vn2 * vn2 / (n2 - 1)))"

text \<open>
  Modelled from the spec: \<^verbatim>\<open>stats.ttest_ind(data1, data2, equal_var=False)\<close> is a routine
  of the SciPy library, which is not part of the sources. It is Welch's test as the spec
  words it: the t-statistic from the sample means and the unbiased sample variances, the
  p-value two-tailed from Student's t distribution with the Welch--Satterthwaite degrees
  of freedom. The survival function of that distribution, \<open>sf d x\<close> for \<open>d\<close> degrees of
  freedom, is a parameter. With both variances zero the degrees of freedom are undefined
  and the routine takes 1; the statistic is then \<^verbatim>\<open>nan\<close> (equal means) or infinite, and the
  p-value \<^verbatim>\<open>nan\<close> or 0.
\<close>

definition ttest_ind :: "(real \<Rightarrow> real \<Rightarrow> real) \<Rightarrow> real list \<Rightarrow> real list \<Rightarrow> fnum \<times> fnum" where
  "ttest_ind sf a b =
     (let n1 = real (length a); n2 = real (length b);
          vn1 = variance a / n1; vn2 = variance b / n2;
          d = (case welch_satterthwaite_df a b of Fin d \<Rightarrow> d | _ \<Rightarrow> 1);
          denom = sqrt (vn1 + vn2);
          t = fdiv (mean a - mean b) denom;
          p = (case t of Fin r \<Rightarrow> Fin (2 * sf d \<bar>r\<bar>) | NaN \<Rightarrow> NaN | _ \<Rightarrow> Fin 0)
      in (t, p))"

text \<open>\<^verbatim>\<open>groups = df[group_col].dropna().unique()\<close>: the labels in order of first appearance.\<close>

definition unique :: "'a list \<Rightarrow> 'a list" where
  "unique xs = rev (remdups (rev xs))"

definition groups :: "string option list \<Rightarrow> string list" where
  "groups labels = unique (dropna labels)"

text \<open>
  \<^verbatim>\<open>df[df[group_col] == group][numeric_col].dropna()\<close>: the present values of the numeric
  column on the rows that carry the label. A missing label equals no label.
\<close>

definition sample :: "string option list \<Rightarrow> real option list \<Rightarrow> string \<Rightarrow> real list" where
  "sample labels cells g =
     dropna (map snd (filter (\<lambda>(l, v). l = Some g) (zip labels cells)))"

record t_test =
  t_stat :: fnum
  dof :: int
  p_value :: fnum
  mean1 :: real
  mean2 :: real
  significant :: bool

text \<open>
  What the section shows: nothing (a guard without \<^verbatim>\<open>else\<close>), the message of
  \<^verbatim>\<open>st.error\<close>, or the three metrics with the observation, where \<open>significant\<close> says
  which branch of \<^verbatim>\<open>if p_value < 0.05\<close> wrote it. The bar chart drawn last shows
  \<open>mean1\<close> and \<open>mean2\<close> again. \<open>No_Such_Column\<close> stands for a selection that is no
  column of the kind asked for, which the select boxes do not offer.
\<close>

datatype outcome =
    No_Output
  | Error string
  | T_Test t_test
  | No_Such_Column

definition reported_failure :: "outcome \<Rightarrow> bool" where
  "reported_failure out = (case out of Error msg \<Rightarrow> True | _ \<Rightarrow> False)"

text \<open>
  The section from \<^verbatim>\<open>groups = ...\<close> on, for the selections \<open>group_col\<close>, \<open>numeric_col\<close>,
  \<open>group1\<close> and \<open>group2\<close> of the four select boxes.
\<close>

definition compare ::
  "(real \<Rightarrow> real \<Rightarrow> real) \<Rightarrow> dataset \<Rightarrow> string \<Rightarrow> string \<Rightarrow> string \<Rightarrow> string \<Rightarrow> outcome" where
  "compare sf df group_col numeric_col group1 group2 =
     (case label_col df group_col of
        None \<Rightarrow> No_Such_Column
      | Some labels \<Rightarrow>
     (case number_col df numeric_col of
        None \<Rightarrow> No_Such_Column
      | Some cells \<Rightarrow>
          if length (groups labels) \<ge> 2 then
            (let data1 = sample labels cells group1;
                 data2 = sample labels cells group2
             in if length data1 > 1 \<and> length data2 > 1 then
                  (let (t, p) = ttest_ind sf data1 data2
                   in T_Test \<lparr>t_stat = t,
                        dof = int (length data1) + int (length data2) - 2,
                        p_value = p,
                        mean1 = mean data1, mean2 = mean data2,
                        significant = fless p (5 / 100)\<rparr>)
                else Error ''Not enough data points in one of the groups.'')
          else No_Output))"

text \<open>
  The whole section: the select boxes exist only under
  \<^verbatim>\<open>if categorical_cols and numeric_cols\<close>.
\<close>

definition t_test_analysis ::
  "(real \<Rightarrow> real \<Rightarrow> real) \<Rightarrow> dataset \<Rightarrow> string \<Rightarrow> string \<Rightarrow> string \<Rightarrow> string \<Rightarrow> outcome" where
  "t_test_analysis sf df group_col numeric_col group1 group2 =
     (if categorical_cols df \<noteq> [] \<and> numeric_cols df \<noteq> []
      then compare sf df group_col numeric_col group1 group2
      else No_Output)"

text \<open>
  Student's t distribution with one degree of freedom is the Cauchy distribution; its
  survival function serves where a concrete one is needed.
\<close>

definition cauchy_sf :: "real \<Rightarrow> real \<Rightarrow> real" where
  "cauchy_sf d x = 1 / 2 - arctan x / pi"

section \<open>Example data\<close>

text \<open>Two groups of different size and variance, with equal means.\<close>

definition unequal_groups :: dataset where
  "unequal_groups =
     [(''g'', Object [Some ''A'', Some ''A'', Some ''B'', Some ''B'', Some ''B'']),
      (''v'', Number [Some 0, Some 2, Some 0, Some 1, Some 2])]"

text \<open>Group \<open>A\<close> has two rows but a single present value; group \<open>B\<close> has three.\<close>

definition lone_value :: dataset where
  "lone_value =
     [(''g'', Object [Some ''A'', Some ''A'', Some ''B'', Some ''B'', Some ''B'']),
      (''v'', Number [Some 1, None, Some 2, Some 3, Some 4])]"

text \<open>A grouping column with a single label (and a missing one).\<close>

definition one_label :: dataset where
  "one_label =
     [(''g'', Object [Some ''A'', Some ''A'', None, Some ''A'']),
      (''v'', Number [Some 1, Some 2, Some 3, Some 4])]"

text \<open>Two groups with the same values.\<close>

definition balanced :: dataset where
  "balanced =
     [(''g'', Object [Some ''A'', Some ''B'', Some ''A'', Some ''B'']),
      (''v'', Number [Some 1, Some 1, Some 3, Some 3])]"

text \<open>Group \<open>A\<close> holds the same value twice.\<close>

definition constant_group :: dataset where
  "constant_group =
     [(''g'', Object [Some ''A'', Some ''A'', Some ''B'']),
      (''v'', Number [Some 5, Some 5, Some 1])]"

text \<open>A numeric column without a single present value, beside a text column.\<close>

definition empty_column :: dataset where
  "empty_column =
     [(''a'', Object [Some ''x'', Some ''y'']),
      (''b'', Number [None, None])]"

text \<open>
  Four columns of five rows; 2, 1, 2 and 0 cells are missing. The \<^verbatim>\<open>bool\<close> column is
  neither numeric nor categorical.
\<close>

definition five_rows :: dataset where
  "five_rows =
     [(''a'', Number [None, None, Some 1, Some 2, Some 3]),
      (''b'', Object [None, Some ''x'', Some ''x'', Some ''y'', Some ''y'']),
      (''c'', Number [Some 1, None, Some 2, None, Some 3]),
      (''d'', Boolean [True, False, True, True, False])]"

text \<open>Five numeric columns around a text column.\<close>

definition five_numeric :: dataset where
  "five_numeric =
     [(''n1'', Number [Some 1, Some 2]),
      (''label'', Object [Some ''x'', None]),
      (''n2'', Number [None, Some 4]),
      (''n3'', Number [None, None]),
      (''n4'', Number [Some 7, Some 8]),
      (''n5'', Number [Some 9, Some 10])]"

text \<open>Two numeric columns that share a single complete row.\<close>

definition sparse_pair :: dataset where
  "sparse_pair =
     [(''a'', Number [Some 1, Some 2, None]),
      (''b'', Number [None, Some 3, Some 4])]"

text \<open>Two numeric columns that run against each other, with a missing row.\<close>

definition opposite_pair :: dataset where
  "opposite_pair =
     [(''a'', Number [Some 0, None, Some 2]),
      (''g'', Object [Some ''x'', Some ''y'', None]),
      (''b'', Number [Some 2, None, Some 0])]"

text \<open>A file of a header line only: every column is read as text, with no row.\<close>

definition header_only :: dataset where
  "header_only = [(''a'', Object []), (''b'', Object [])]"

text \<open>An integer column whose sum does not fit in 64 bits.\<close>

definition big_integers :: dataset where
  "big_integers = [(''n'', Int64 [9223372036854775807, 1])]"

text \<open>An integer column beside a column of floating-point numbers.\<close>

definition mixed_numbers :: dataset where
  "mixed_numbers =
     [(''count'', Int64 [3, 4, 5]),
      (''price'', Number [Some 1, None, Some 2])]"

section \<open>Basic facts\<close>

lemma dropna_Nil [simp]: "dropna [] = []"
  by (simp add: dropna_def List.map_filter_def)

lemma dropna_Cons [simp]:
  "dropna (c # cells) = (case c of None \<Rightarrow> dropna cells | Some x \<Rightarrow> x # dropna cells)"
  by (simp add: dropna_def List.map_filter_def split: option.splits)

lemma as_numbers_simps [simp]:
  "as_numbers (Number cells) = Some cells"
  "as_numbers (Int64 ws) = Some (int_values ws)"
  "as_numbers (Object ls) = None"
  "as_numbers (Category ls) = None"
  "as_numbers (Boolean bs) = None"
  "as_numbers (Datetime ts) = None"
  by (simp_all add: as_numbers_def)

lemma as_numbers_is_number: "(as_numbers c \<noteq> None) = is_number c"
  by (cases c) simp_all

lemmas eval_defs = label_col_def number_col_def groups_def unique_def sample_def
  mean_def variance_def sum_sq_dev_def welch_satterthwaite_df_def fdiv_def ttest_ind_def

lemma cauchy_sf_zero: "cauchy_sf d 0 = 1 / 2"
  by (simp add: cauchy_sf_def)

lemma dropna_map_Some: "dropna (map (\<lambda>x. Some (f x)) xs) = map f xs"
  by (induction xs) simp_all

lemma dropna_int_values: "dropna (int_values ws) = map (\<lambda>w. real_of_int (sint w)) ws"
  by (simp add: int_values_def dropna_map_Some)

lemma those_map_Some:
  "\<forall>x\<in>set xs. f x = Some (g x) \<Longrightarrow> those (map f xs) = Some (map g xs)"
  by (induction xs) simp_all

lemma map_of_numeric:
  assumes "distinct (map fst df)" and "name \<in> set (numeric_cols df)"
  shows "\<exists>c. (name, c) \<in> set df \<and> is_number c \<and> map_of df name = Some c"
  using assms by (auto simp: numeric_cols_def)

lemma map_of_categorical:
  assumes "distinct (map fst df)" and "name \<in> set (categorical_cols df)"
  shows "\<exists>c. (name, c) \<in> set df \<and> is_categorical c \<and> map_of df name = Some c"
  using assms by (auto simp: categorical_cols_def)

section \<open>Classification by dtype\<close>

text \<open>
  Claim C8, as the claim states it, fails: a numeric column whose cells are all missing
  (what an empty column of a CSV file is read as) is listed as numeric, not as
  categorical.
\<close>

theorem all_missing_is_numeric:
  "all_missing (Number [None, None])
   \<and> numeric_cols empty_column = [''b'']
   \<and> categorical_cols empty_column = [''a'']"
  by (simp add: all_missing_def numeric_cols_def categorical_cols_def empty_column_def)

text \<open>
  Claim C8, amended. For a data frame with distinct column names, a name is listed as
  numeric exactly when its column holds numbers (missing cells or not, even all of
  them) and as categorical exactly when its column holds text or category labels; no
  name is listed twice, in one list or across the two, and both lists keep the order
  of the columns.
\<close>

theorem classify_by_dtype:
  assumes "distinct (map fst df)"
  shows "(name \<in> set (numeric_cols df)) = (number_col df name \<noteq> None)
       \<and> (name \<in> set (categorical_cols df)) = (label_col df name \<noteq> None)
       \<and> distinct (categorical_cols df @ numeric_cols df)
       \<and> subseq (categorical_cols df) (map fst df)
       \<and> subseq (numeric_cols df) (map fst df)"
proof -
  have num: "(name \<in> set (numeric_cols df)) = (number_col df name \<noteq> None)"
  proof
    assume "name \<in> set (numeric_cols df)"
    from map_of_numeric [OF assms this] obtain c
      where c: "is_number c" "map_of df name = Some c" by blast
    from c(1) have "as_numbers c \<noteq> None"
      by (simp only: as_numbers_is_number)
    with c(2) show "number_col df name \<noteq> None"
      by (simp add: number_col_def)
  next
    assume "number_col df name \<noteq> None"
    then obtain c where c: "map_of df name = Some c" "as_numbers c \<noteq> None"
      by (auto simp: number_col_def split: option.splits)
    from c(2) have "is_number c"
      by (simp only: as_numbers_is_number)
    from c(1) have "(name, c) \<in> set df"
      by (rule map_of_SomeD)
    with \<open>is_number c\<close> show "name \<in> set (numeric_cols df)"
      by (force simp: numeric_cols_def)
  qed
  have cat: "(name \<in> set (categorical_cols df)) = (label_col df name \<noteq> None)"
  proof
    assume "name \<in> set (categorical_cols df)"
    from map_of_categorical [OF assms this] obtain c
      where "is_categorical c" "map_of df name = Some c" by blast
    then show "label_col df name \<noteq> None"
      by (cases c) (simp_all add: label_col_def)
  next
    assume "label_col df name \<noteq> None"
    then obtain c where c: "map_of df name = Some c" "is_categorical c"
      by (auto simp: label_col_def split: option.splits coldata.splits)
    from c(1) have "(name, c) \<in> set df"
      by (rule map_of_SomeD)
    with c(2) show "name \<in> set (categorical_cols df)"
      by (force simp: categorical_cols_def)
  qed
  have disjoint: "set (categorical_cols df) \<inter> set (numeric_cols df) = {}"
  proof -
    have False if "n \<in> set (categorical_cols df)" "n \<in> set (numeric_cols df)" for n
    proof -
      from map_of_categorical [OF assms that(1)] map_of_numeric [OF assms that(2)]
      obtain c where "is_categorical c" "is_number c" by auto
      then show False by (cases c) simp_all
    qed
    then show ?thesis by blast
  qed
  have d1: "distinct (categorical_cols df)" and d2: "distinct (numeric_cols df)"
    using assms by (simp_all add: categorical_cols_def numeric_cols_def distinct_map_filter)
  have s1: "subseq (categorical_cols df) (map fst df)"
    and s2: "subseq (numeric_cols df) (map fst df)"
    by (simp_all add: categorical_cols_def numeric_cols_def subseq_map)
  from num cat disjoint d1 d2 s1 s2 show ?thesis
    by simp
qed

theorem classify_by_dtype_witness:
  "distinct (map fst five_rows)
   \<and> numeric_cols five_rows = [''a'', ''c'']
   \<and> categorical_cols five_rows = [''b'']
   \<and> number_col five_rows ''c'' \<noteq> None
   \<and> label_col five_rows ''b'' \<noteq> None
   \<and> number_col five_rows ''d'' = None
   \<and> label_col five_rows ''d'' = None
   \<and> distinct (categorical_cols five_rows @ numeric_cols five_rows)
   \<and> subseq (categorical_cols five_rows) (map fst five_rows)
   \<and> subseq (numeric_cols five_rows) (map fst five_rows)"
proof -
  have d: "distinct (map fst five_rows)"
    by (simp add: five_rows_def)
  have n: "numeric_cols five_rows = [''a'', ''c'']"
    and c: "categorical_cols five_rows = [''b'']"
    by (simp_all add: numeric_cols_def categorical_cols_def five_rows_def)
  have "number_col five_rows ''d'' = None" and "label_col five_rows ''d'' = None"
    by (simp_all add: number_col_def label_col_def five_rows_def)
  then show ?thesis
    using d n c classify_by_dtype [OF d, of "''c''"] classify_by_dtype [OF d, of "''b''"]
    by simp
qed

section \<open>The KPI cards and the share of missing cells\<close>

lemma sint_sum_list:
  fixes ws :: "64 word list"
  shows "sint (sum_list ws) = signed_take_bit 63 (\<Sum>w\<leftarrow>ws. sint w)"
proof (induction ws)
  case Nil
  then show ?case by simp
next
  case (Cons a ws)
  let ?S = "\<Sum>w\<leftarrow>ws. sint w"
  have "sint (a + sum_list ws) = signed_take_bit 63 (sint a + signed_take_bit 63 ?S)"
    by (simp add: sint_word_add Cons.IH)
  also have "\<dots> = signed_take_bit 63 (signed_take_bit 63 (sint a)
                       + signed_take_bit 63 (signed_take_bit 63 ?S))"
    by (simp only: signed_take_bit_add)
  also have "\<dots> = signed_take_bit 63 (signed_take_bit 63 (sint a) + signed_take_bit 63 ?S)"
    by simp
  also have "\<dots> = signed_take_bit 63 (sint a + ?S)"
    by (simp only: signed_take_bit_add)
  finally show ?case by simp
qed

lemma kpi_card_numeric:
  assumes "distinct (map fst df)" and "name \<in> set (numeric_cols df)"
  shows "\<exists>s m. kpi_card df name = Some (name, s, m)
           \<and> ((\<exists>cells. (name, Number cells) \<in> set df
                  \<and> s = sum_list (dropna cells)
                  \<and> m = (if dropna cells = [] then None
                         else Some (sum_list (dropna cells) / real (length (dropna cells)))))
              \<or> (\<exists>ws. (name, Int64 ws) \<in> set df
                  \<and> s = real_of_int (signed_take_bit 63 (\<Sum>w\<leftarrow>ws. sint w))
                  \<and> m = (if ws = [] then None
                         else Some ((\<Sum>w\<leftarrow>ws. real_of_int (sint w)) / real (length ws)))))"
proof -
  from map_of_numeric [OF assms] obtain c
    where c: "(name, c) \<in> set df" "is_number c" "map_of df name = Some c" by blast
  show ?thesis
  proof (cases c)
    case (Number cells)
    with c show ?thesis
      by (auto simp: kpi_card_def col_sum_def col_mean_def nanmean_def mean_def)
  next
    case (Int64 ws)
    have "kpi_card df name
          = Some (name, real_of_int (signed_take_bit 63 (\<Sum>w\<leftarrow>ws. sint w)),
              (if ws = [] then None
               else Some ((\<Sum>w\<leftarrow>ws. real_of_int (sint w)) / real (length ws))))"
      using c(3) Int64
      by (simp add: kpi_card_def col_sum_int64_def sint_sum_list col_mean_def nanmean_def
          mean_def dropna_int_values comp_def)
    with c(1) Int64 show ?thesis
      by blast
  qed (use c(2) in simp_all)
qed

lemma kpi_cards_defined:
  assumes "distinct (map fst df)"
  shows "\<exists>cs. kpi_cards df = Some cs"
proof -
  have "kpi_card df name = Some (the (kpi_card df name))"
    if "name \<in> set (top_numeric df)" for name
  proof -
    from that have "name \<in> set (numeric_cols df)"
      by (auto simp: top_numeric_def dest: in_set_takeD)
    from kpi_card_numeric [OF assms this] show ?thesis
      by auto
  qed
  then have "kpi_cards df = Some (map (\<lambda>name. the (kpi_card df name)) (top_numeric df))"
    unfolding kpi_cards_def by (intro those_map_Some) auto
  then show ?thesis
    by blast
qed

lemma missing_ratio_rectangular:
  assumes "rectangular df" and "0 < total_rows df"
  shows "missing_ratio df
         = Some ((\<Sum>(name, c)\<leftarrow>df. real (null_count c) / real (total_rows df)) / real (length df))"
proof -
  from assms(2) have nonempty: "df \<noteq> []"
    by (auto simp: total_rows_def)
  have share: "null_share c = Some (real (null_count c) / real (total_rows df))"
    if "(name, c) \<in> set df" for name c
    using that assms by (auto simp: rectangular_def list_all_iff null_share_def)
  have "map (\<lambda>(name, c). null_share c) df
        = map (\<lambda>x. Some ((\<lambda>(name, c). real (null_count c) / real (total_rows df)) x)) df"
    using share by (auto simp: split_beta)
  then have "dropna (map (\<lambda>(name, c). null_share c) df)
        = map (\<lambda>(name, c). real (null_count c) / real (total_rows df)) df"
    by (simp only: dropna_map_Some)
  with nonempty show ?thesis
    by (simp add: missing_ratio_def nanmean_def mean_def)
qed

text \<open>
  Claim C7, as the claim states it, fails: the sum on the card of an integer column is
  taken in 64-bit integers and wraps around. For the cells 9223372036854775807 and 1
  the card shows -9223372036854775808, which is not their sum.
\<close>

theorem int64_sum_wraps:
  "kpi_cards big_integers
     = Some [(''n'', - 9223372036854775808, Some 4611686018427387904)]
   \<and> (\<Sum>w\<leftarrow>[9223372036854775807, 1 :: 64 word]. sint w) = 9223372036854775808"
  by (simp add: kpi_cards_def top_numeric_def numeric_cols_def kpi_card_def big_integers_def
      col_sum_int64_def col_mean_def nanmean_def mean_def int_values_def)

text \<open>
  Claim C7, amended. The cards are computed for exactly the first three numeric columns
  (the program fixes the number at three), in the order of the columns, and for all of
  them when there are fewer. The card of a floating-point column carries the sum and
  the mean of its present values (the mean is \<^verbatim>\<open>nan\<close> when no value is present); the card
  of an integer column carries the sum of its cells reduced to a 64-bit two's
  complement integer, and their mean. No lookup fails: the section shows the warning
  when there is no numeric column and the dashboard with these cards otherwise.
\<close>

theorem kpi_cards_first_three:
  assumes "distinct (map fst df)"
  shows "\<exists>cs. kpi_cards df = Some cs
           \<and> map fst cs = take 3 (numeric_cols df)
           \<and> length cs = min 3 (length (numeric_cols df))
           \<and> (\<forall>(name, s, m) \<in> set cs.
                (\<exists>cells. (name, Number cells) \<in> set df
                  \<and> s = sum_list (dropna cells)
                  \<and> m = (if dropna cells = [] then None
                         else Some (sum_list (dropna cells) / real (length (dropna cells)))))
                \<or> (\<exists>ws. (name, Int64 ws) \<in> set df
                  \<and> s = real_of_int (signed_take_bit 63 (\<Sum>w\<leftarrow>ws. sint w))
                  \<and> m = (if ws = [] then None
                         else Some ((\<Sum>w\<leftarrow>ws. real_of_int (sint w)) / real (length ws)))))
           \<and> auto_kpis df
               = (if numeric_cols df = [] then No_Numerical_Columns
                  else Dashboard \<lparr>cards = cs, rows_metric = total_rows df,
                         columns_metric = total_columns df, missing_metric = missing df\<rparr>)"
proof -
  define g where "g name = the (kpi_card df name)" for name
  have top: "set (top_numeric df) \<subseteq> set (numeric_cols df)"
    by (auto simp: top_numeric_def dest: in_set_takeD)
  have card: "kpi_card df name = Some (g name) \<and> fst (g name) = name"
    if "name \<in> set (top_numeric df)" for name
  proof -
    from that top have "name \<in> set (numeric_cols df)"
      by auto
    from kpi_card_numeric [OF assms this] obtain s m
      where "kpi_card df name = Some (name, s, m)" by blast
    then show ?thesis
      by (simp add: g_def)
  qed
  then have fst_g: "fst (g name) = name" if "name \<in> set (top_numeric df)" for name
    using that by blast
  have cs: "kpi_cards df = Some (map g (top_numeric df))"
    unfolding kpi_cards_def using card by (intro those_map_Some) auto
  have names: "map fst (map g (top_numeric df)) = take 3 (numeric_cols df)"
  proof -
    have "map fst (map g (top_numeric df)) = map (\<lambda>name. name) (top_numeric df)"
      unfolding map_map comp_def by (rule map_cong) (simp_all add: fst_g)
    then show ?thesis
      by (simp add: top_numeric_def)
  qed
  have len: "length (map g (top_numeric df)) = min 3 (length (numeric_cols df))"
    by (simp add: top_numeric_def min.commute)
  have one: "(\<exists>cells. (name, Number cells) \<in> set df
                  \<and> s = sum_list (dropna cells)
                  \<and> m = (if dropna cells = [] then None
                         else Some (sum_list (dropna cells) / real (length (dropna cells)))))
                \<or> (\<exists>ws. (name, Int64 ws) \<in> set df
                  \<and> s = real_of_int (signed_take_bit 63 (\<Sum>w\<leftarrow>ws. sint w))
                  \<and> m = (if ws = [] then None
                         else Some ((\<Sum>w\<leftarrow>ws. real_of_int (sint w)) / real (length ws))))"
    if "(name, s, m) \<in> set (map g (top_numeric df))" for name s m
  proof -
    from that obtain n where n: "n \<in> set (top_numeric df)" "g n = (name, s, m)"
      by auto
    from fst_g [OF n(1)] n(2) have "n = name"
      by simp
    with n card have k: "kpi_card df name = Some (name, s, m)"
      by auto
    from n(1) top \<open>n = name\<close> have "name \<in> set (numeric_cols df)"
      by auto
    from kpi_card_numeric [OF assms this] k show ?thesis
      by auto
  qed
  then have each: "\<forall>(name, s, m) \<in> set (map g (top_numeric df)).
                (\<exists>cells. (name, Number cells) \<in> set df
                  \<and> s = sum_list (dropna cells)
                  \<and> m = (if dropna cells = [] then None
                         else Some (sum_list (dropna cells) / real (length (dropna cells)))))
                \<or> (\<exists>ws. (name, Int64 ws) \<in> set df
                  \<and> s = real_of_int (signed_take_bit 63 (\<Sum>w\<leftarrow>ws. sint w))
                  \<and> m = (if ws = [] then None
                         else Some ((\<Sum>w\<leftarrow>ws. real_of_int (sint w)) / real (length ws))))"
    by blast
  have shown: "auto_kpis df
               = (if numeric_cols df = [] then No_Numerical_Columns
                  else Dashboard \<lparr>cards = map g (top_numeric df), rows_metric = total_rows df,
                         columns_metric = total_columns df, missing_metric = missing df\<rparr>)"
    by (simp add: auto_kpis_def cs)
  from cs names len each shown show ?thesis
    by blast
qed

theorem kpi_cards_first_three_witness:
  "distinct (map fst five_numeric)
   \<and> numeric_cols five_numeric = [''n1'', ''n2'', ''n3'', ''n4'', ''n5'']
   \<and> kpi_cards five_numeric = Some [(''n1'', 3, Some (3 / 2)), (''n2'', 4, Some 4), (''n3'', 0, None)]
   \<and> kpi_cards mixed_numbers = Some [(''count'', 12, Some 4), (''price'', 3, Some (3 / 2))]
   \<and> kpi_cards lone_value = Some [(''v'', 10, Some (5 / 2))]
   \<and> (\<exists>cs. kpi_cards five_numeric = Some cs
         \<and> map fst cs = take 3 (numeric_cols five_numeric)
         \<and> length cs = min 3 (length (numeric_cols five_numeric))
         \<and> auto_kpis five_numeric
             = Dashboard \<lparr>cards = cs, rows_metric = 2, columns_metric = 6,
                 missing_metric = missing five_numeric\<rparr>)"
proof -
  have d: "distinct (map fst five_numeric)"
    by (simp add: five_numeric_def)
  have n: "numeric_cols five_numeric = [''n1'', ''n2'', ''n3'', ''n4'', ''n5'']"
    by (simp add: numeric_cols_def five_numeric_def)
  have k: "kpi_cards five_numeric = Some [(''n1'', 3, Some (3 / 2)), (''n2'', 4, Some 4), (''n3'', 0, None)]"
    by (simp add: kpi_cards_def top_numeric_def numeric_cols_def kpi_card_def
        five_numeric_def col_sum_def col_mean_def nanmean_def mean_def)
  have k2: "kpi_cards mixed_numbers = Some [(''count'', 12, Some 4), (''price'', 3, Some (3 / 2))]"
    by (simp add: kpi_cards_def top_numeric_def numeric_cols_def kpi_card_def
        mixed_numbers_def col_sum_def col_sum_int64_def col_mean_def nanmean_def mean_def
        int_values_def)
  have k3: "kpi_cards lone_value = Some [(''v'', 10, Some (5 / 2))]"
    by (simp add: kpi_cards_def top_numeric_def numeric_cols_def kpi_card_def
        lone_value_def col_sum_def col_mean_def nanmean_def mean_def)
  have r: "total_rows five_numeric = 2" and c: "total_columns five_numeric = 6"
    by (simp_all add: five_numeric_def total_rows_def total_columns_def col_length_def)
  from kpi_cards_first_three [OF d]
  have "\<exists>cs. kpi_cards five_numeric = Some cs
         \<and> map fst cs = take 3 (numeric_cols five_numeric)
         \<and> length cs = min 3 (length (numeric_cols five_numeric))
         \<and> auto_kpis five_numeric
             = Dashboard \<lparr>cards = cs, rows_metric = 2, columns_metric = 6,
                 missing_metric = missing five_numeric\<rparr>"
    unfolding n r c by auto
  with d n k k2 k3 show ?thesis
    by blast
qed

text \<open>
  Claim C6, as the claim states it, fails: a data frame of no row has no numeric column
  (a file of a header line only is read as text columns), and for a data frame without
  numeric column the program computes no share of missing cells at all; it shows the
  warning instead, not a share of 0.
\<close>

theorem header_only_no_ratio:
  "total_rows header_only = 0
   \<and> numeric_cols header_only = []
   \<and> auto_kpis header_only = No_Numerical_Columns"
  by (simp add: header_only_def total_rows_def col_length_def numeric_cols_def auto_kpis_def)

text \<open>
  Claim C6, amended. For a data frame with at least one numeric column and at least one
  row, the share of missing cells that the dashboard shows (as a percentage) is the
  arithmetic mean, over all columns, of the column's count of missing cells divided by
  the number of rows; the frame of four columns and five rows with 2, 1, 2 and 0
  missing cells gives one quarter. For a data frame without numeric column, as a
  header-only file of no row is, no share is computed: the warning is shown.
\<close>

theorem missing_metric_mean_of_shares:
  assumes "distinct (map fst df)" and "rectangular df"
  shows "(numeric_cols df = [] \<longrightarrow> auto_kpis df = No_Numerical_Columns)
       \<and> (numeric_cols df \<noteq> [] \<and> 0 < total_rows df \<longrightarrow>
            (\<exists>d. auto_kpis df = Dashboard d
               \<and> missing_ratio df
                   = Some ((\<Sum>(name, c)\<leftarrow>df. real (null_count c) / real (total_rows df))
                           / real (length df))
               \<and> missing_metric d
                   = Some ((\<Sum>(name, c)\<leftarrow>df. real (null_count c) / real (total_rows df))
                           / real (length df) * 100)))"
proof -
  have silent: "auto_kpis df = No_Numerical_Columns" if "numeric_cols df = []"
    using that by (simp add: auto_kpis_def)
  have shown: "\<exists>d. auto_kpis df = Dashboard d
               \<and> missing_ratio df
                   = Some ((\<Sum>(name, c)\<leftarrow>df. real (null_count c) / real (total_rows df))
                           / real (length df))
               \<and> missing_metric d
                   = Some ((\<Sum>(name, c)\<leftarrow>df. real (null_count c) / real (total_rows df))
                           / real (length df) * 100)"
    if "numeric_cols df \<noteq> []" and "0 < total_rows df"
  proof -
    from kpi_cards_defined [OF assms(1)] obtain cs where cs: "kpi_cards df = Some cs"
      by blast
    note r = missing_ratio_rectangular [OF assms(2) that(2)]
    from that(1) cs have "auto_kpis df = Dashboard \<lparr>cards = cs, rows_metric = total_rows df,
           columns_metric = total_columns df, missing_metric = missing df\<rparr>"
      by (simp add: auto_kpis_def)
    moreover have "missing df = Some ((\<Sum>(name, c)\<leftarrow>df. real (null_count c) / real (total_rows df))
                           / real (length df) * 100)"
      by (simp add: missing_def r)
    ultimately show ?thesis
      using r by simp
  qed
  from silent shown show ?thesis
    by blast
qed

theorem missing_metric_mean_of_shares_witness:
  "distinct (map fst five_rows) \<and> rectangular five_rows
   \<and> numeric_cols five_rows = [''a'', ''c''] \<and> total_rows five_rows = 5
   \<and> length five_rows = 4
   \<and> map (\<lambda>(name, c). null_count c) five_rows = [2, 1, 2, 0]
   \<and> missing_ratio five_rows = Some (1 / 4)
   \<and> (\<exists>d. auto_kpis five_rows = Dashboard d \<and> missing_metric d = Some 25)
   \<and> distinct (map fst header_only) \<and> rectangular header_only
   \<and> numeric_cols header_only = []
   \<and> auto_kpis header_only = No_Numerical_Columns"
proof -
  have d: "distinct (map fst five_rows)" and b: "rectangular five_rows"
    and c: "total_rows five_rows = 5" and l: "length five_rows = 4"
    and nc: "numeric_cols five_rows = [''a'', ''c'']"
    by (simp_all add: five_rows_def rectangular_def total_rows_def col_length_def
        numeric_cols_def)
  have n: "map (\<lambda>(name, c). null_count c) five_rows = [2, 1, 2, 0]"
    by (simp add: five_rows_def null_count_def)
  have e: "(\<Sum>(name, c)\<leftarrow>five_rows. real (null_count c) / real (total_rows five_rows))
             / real (length five_rows) = 1 / 4"
    unfolding c by (simp add: five_rows_def null_count_def)
  have pre: "numeric_cols five_rows \<noteq> [] \<and> 0 < total_rows five_rows"
    by (simp add: nc c)
  from missing_metric_mean_of_shares [OF d b] pre
  have "\<exists>dash. auto_kpis five_rows = Dashboard dash
          \<and> missing_ratio five_rows
              = Some ((\<Sum>(name, c)\<leftarrow>five_rows. real (null_count c) / real (total_rows five_rows))
                      / real (length five_rows))
          \<and> missing_metric dash
              = Some ((\<Sum>(name, c)\<leftarrow>five_rows. real (null_count c) / real (total_rows five_rows))
                      / real (length five_rows) * 100)"
    by blast
  then have shown: "missing_ratio five_rows = Some (1 / 4)
      \<and> (\<exists>dash. auto_kpis five_rows = Dashboard dash \<and> missing_metric dash = Some 25)"
    unfolding e by auto
  have hd: "distinct (map fst header_only)" and hb: "rectangular header_only"
    and hn: "numeric_cols header_only = []"
    by (simp_all add: header_only_def rectangular_def total_rows_def col_length_def
        numeric_cols_def)
  from missing_metric_mean_of_shares [OF hd hb] hn
  have "auto_kpis header_only = No_Numerical_Columns"
    by blast
  with d b nc c l n shown hd hb hn show ?thesis
    by blast
qed

section \<open>Correlation: the guard\<close>

text \<open>
  Claim C3. With fewer than two numeric columns the correlation section yields the
  absent result \<open>None\<close>, and nothing else: the result is absent exactly when there are
  fewer than two numeric columns, and otherwise it is the matrix over the numeric
  columns. No branch of \<open>correlate\<close> is an error.
\<close>

theorem correlate_absent_iff:
  "(correlate df m = None) = (length (numeric_cols df) < 2)
   \<and> (correlate df m = None \<or> correlate df m = Some (corr m (numeric_frame df)))"
  by (auto simp: correlate_def)

theorem correlate_absent_iff_witness:
  "length (numeric_cols one_label) < 2
   \<and> correlate one_label Spearman = None
   \<and> 2 \<le> length (numeric_cols [(''a'', Number [Some 1]), (''b'', Number [Some 2])])
   \<and> correlate [(''a'', Number [Some 1]), (''b'', Number [Some 2])] Spearman
       = Some (corr Spearman (numeric_frame [(''a'', Number [Some 1]), (''b'', Number [Some 2])]))"
proof -
  let ?two = "[(''a'', Number [Some 1]), (''b'', Number [Some 2])]"
  have one: "length (numeric_cols one_label) < 2"
    by (simp add: numeric_cols_def one_label_def)
  have two: "2 \<le> length (numeric_cols ?two)"
    by (simp add: numeric_cols_def)
  from one correlate_absent_iff [of one_label Spearman]
  have "correlate one_label Spearman = None"
    by blast
  moreover from two correlate_absent_iff [of ?two Spearman]
  have "correlate ?two Spearman = Some (corr Spearman (numeric_frame ?two))"
    by auto
  ultimately show ?thesis
    using one two by blast
qed

section \<open>Correlation: the matrix\<close>

subsection \<open>The Cauchy--Schwarz inequality over a list\<close>

lemma quadratic_sum:
  fixes f g :: "'a \<Rightarrow> real"
  shows "(\<Sum>x\<leftarrow>xs. (f x * t + g x) * (f x * t + g x))
         = (\<Sum>x\<leftarrow>xs. f x * f x) * t * t + 2 * (\<Sum>x\<leftarrow>xs. f x * g x) * t + (\<Sum>x\<leftarrow>xs. g x * g x)"
  by (induction xs) (simp_all add: algebra_simps)

lemma sum_squares_nonneg:
  fixes f :: "'a \<Rightarrow> real"
  shows "0 \<le> (\<Sum>x\<leftarrow>xs. f x * f x)"
  by (induction xs) simp_all

lemma cauchy_schwarz_list:
  fixes f g :: "'a \<Rightarrow> real"
  shows "(\<Sum>x\<leftarrow>xs. f x * g x) * (\<Sum>x\<leftarrow>xs. f x * g x)
         \<le> (\<Sum>x\<leftarrow>xs. f x * f x) * (\<Sum>x\<leftarrow>xs. g x * g x)"
proof -
  define A where "A = (\<Sum>x\<leftarrow>xs. f x * f x)"
  define B where "B = (\<Sum>x\<leftarrow>xs. g x * g x)"
  define S where "S = (\<Sum>x\<leftarrow>xs. f x * g x)"
  have quad: "0 \<le> A * t * t + 2 * S * t + B" for t
    using sum_squares_nonneg [of "\<lambda>x. f x * t + g x" xs]
    by (simp add: quadratic_sum A_def B_def S_def)
  have A: "0 \<le> A" and B: "0 \<le> B"
    by (simp_all add: A_def B_def sum_squares_nonneg)
  show ?thesis
  proof (cases "A = 0")
    case True
    have "S = 0"
    proof (rule ccontr)
      assume "S \<noteq> 0"
      from quad [of "- (B + 1) / (2 * S)"] True \<open>S \<noteq> 0\<close> show False
        by (simp add: field_simps)
    qed
    with True show ?thesis
      by (simp add: A_def S_def)
  next
    case False
    with A have pos: "0 < A" by simp
    from quad [of "- S / A"] pos have "0 \<le> B - S * S / A"
      by (simp add: field_simps)
    with pos have "S * S \<le> A * B"
      by (simp add: field_simps)
    then show ?thesis
      by (simp add: A_def B_def S_def)
  qed
qed

lemma ratio_range:
  fixes c d :: real
  assumes "c * c \<le> d * d" and "0 < d"
  shows "- 1 \<le> c / d \<and> c / d \<le> 1"
proof -
  from assms(1) have "\<bar>c\<bar> \<le> \<bar>d\<bar>"
    by (simp add: abs_le_square_iff power2_eq_square)
  with assms(2) have "- d \<le> c" and "c \<le> d"
    by linarith+
  with assms(2) show ?thesis
    by (simp add: pos_le_divide_eq pos_divide_le_eq)
qed

subsection \<open>Columns without variance\<close>

lemma sum_sq_dev_nonneg: "0 \<le> sum_sq_dev xs"
  by (simp add: sum_sq_dev_def sum_squares_nonneg)

lemma sum_sq_dev_zero_iff:
  "sum_sq_dev xs = 0 \<longleftrightarrow> (\<forall>x\<in>set xs. x = mean xs)"
proof -
  have "sum_sq_dev xs = 0 \<longleftrightarrow> (\<forall>y\<in>set (map (\<lambda>x. (x - mean xs) * (x - mean xs)) xs). y = 0)"
    unfolding sum_sq_dev_def by (rule sum_list_nonneg_eq_0_iff) auto
  then show ?thesis by auto
qed

lemma sum_list_constant:
  fixes c :: real
  shows "\<forall>x\<in>set xs. x = c \<Longrightarrow> sum_list xs = real (length xs) * c"
  by (induction xs) (simp_all add: algebra_simps)

lemma sum_sq_dev_zero_constant:
  "sum_sq_dev xs = 0 \<longleftrightarrow> (\<forall>x\<in>set xs. \<forall>y\<in>set xs. x = y)"
proof
  assume "sum_sq_dev xs = 0"
  then have "\<forall>x\<in>set xs. x = mean xs"
    by (simp only: sum_sq_dev_zero_iff)
  then show "\<forall>x\<in>set xs. \<forall>y\<in>set xs. x = y"
    by metis
next
  assume const: "\<forall>x\<in>set xs. \<forall>y\<in>set xs. x = y"
  show "sum_sq_dev xs = 0"
  proof (cases xs)
    case Nil
    then show ?thesis by (simp add: sum_sq_dev_def)
  next
    case (Cons c cs)
    with const have all: "\<forall>x\<in>set xs. x = c" by auto
    from sum_list_constant [OF this] Cons have "mean xs = c"
      by (simp add: mean_def)
    with all show ?thesis
      by (simp add: sum_sq_dev_zero_iff)
  qed
qed

subsection \<open>Pearson\<close>

lemma sum_co_dev_bound:
  "sum_co_dev ps * sum_co_dev ps \<le> sum_sq_dev (map fst ps) * sum_sq_dev (map snd ps)"
  using cauchy_schwarz_list [where f = "\<lambda>p. fst p - mean (map fst ps)"
      and g = "\<lambda>p. snd p - mean (map snd ps)" and xs = ps]
  by (simp add: sum_co_dev_def sum_sq_dev_def comp_def split_def)

lemma pearson_range:
  assumes "pearson ps = Some r"
  shows "- 1 \<le> r \<and> r \<le> 1"
proof -
  let ?A = "sum_sq_dev (map fst ps) * sum_sq_dev (map snd ps)"
  from assms have d: "sqrt ?A \<noteq> 0" and r: "r = sum_co_dev ps / sqrt ?A"
    by (auto simp: pearson_def Let_def split: if_splits)
  have A: "0 \<le> ?A"
    by (simp add: sum_sq_dev_nonneg)
  with d have pos: "0 < sqrt ?A"
    by (simp add: less_le)
  from A have "sqrt ?A * sqrt ?A = ?A"
    by simp
  with sum_co_dev_bound [of ps] have "sum_co_dev ps * sum_co_dev ps \<le> sqrt ?A * sqrt ?A"
    by simp
  from ratio_range [OF this pos] r show ?thesis
    by simp
qed

lemma sum_co_dev_swap: "sum_co_dev (map prod.swap ps) = sum_co_dev ps"
  by (simp add: sum_co_dev_def comp_def split_def mult.commute)

lemma pearson_swap: "pearson (map prod.swap ps) = pearson ps"
  by (simp add: pearson_def Let_def sum_co_dev_swap comp_def mult.commute)

lemma pearson_diag:
  assumes "sum_sq_dev xs \<noteq> 0"
  shows "pearson (map (\<lambda>x. (x, x)) xs) = Some 1"
proof -
  from assms have "xs \<noteq> []"
    by (auto simp: sum_sq_dev_def)
  moreover have "sum_co_dev (map (\<lambda>x. (x, x)) xs) = sum_sq_dev xs"
    by (simp add: sum_co_dev_def sum_sq_dev_def comp_def)
  moreover have "sqrt (sum_sq_dev xs * sum_sq_dev xs) = sum_sq_dev xs"
    using sum_sq_dev_nonneg [of xs] by simp
  ultimately show ?thesis
    using assms by (simp add: pearson_def comp_def Let_def)
qed

subsection \<open>Spearman\<close>

lemma spearman_range: "spearman ps = Some r \<Longrightarrow> - 1 \<le> r \<and> r \<le> 1"
  unfolding spearman_def by (rule pearson_range)

lemma zip_swap: "zip ys xs = map prod.swap (zip xs ys)"
  by (induction xs ys rule: list_induct2') simp_all

lemma spearman_swap: "spearman (map prod.swap ps) = spearman ps"
proof -
  have "spearman (map prod.swap ps) = pearson (zip (rank (map snd ps)) (rank (map fst ps)))"
    by (simp add: spearman_def comp_def)
  also have "\<dots> = pearson (map prod.swap (zip (rank (map fst ps)) (rank (map snd ps))))"
    by (simp only: zip_swap [symmetric])
  also have "\<dots> = spearman ps"
    by (simp only: pearson_swap spearman_def)
  finally show ?thesis .
qed

lemma count_below:
  fixes x y :: real
  assumes "x < y"
  shows "length (filter (\<lambda>z. z < x) xs) + length (filter (\<lambda>z. z = x) xs)
         \<le> length (filter (\<lambda>z. z < y) xs)"
  using assms by (induction xs) auto

lemma rank_gap:
  fixes a b c e :: real
  assumes "a + b \<le> c" and "0 \<le> b" and "1 \<le> e"
  shows "a + (b + 1) / 2 < c + (e + 1) / 2"
  using assms by (simp add: field_simps)

lemma avg_rank_mono:
  assumes "x < y" and "y \<in> set xs"
  shows "avg_rank xs x < avg_rank xs y"
proof -
  from assms(2) have "filter (\<lambda>z. z = y) xs \<noteq> []"
    by (auto simp: filter_empty_conv)
  then have "1 \<le> length (filter (\<lambda>z. z = y) xs)"
    by (cases "filter (\<lambda>z. z = y) xs") simp_all
  then have e: "1 \<le> real (length (filter (\<lambda>z. z = y) xs))"
    by simp
  from count_below [OF assms(1), of xs]
  have "real (length (filter (\<lambda>z. z < x) xs)) + real (length (filter (\<lambda>z. z = x) xs))
        \<le> real (length (filter (\<lambda>z. z < y) xs))"
    by (metis of_nat_add of_nat_le_iff)
  moreover have "0 \<le> real (length (filter (\<lambda>z. z = x) xs))"
    by simp
  ultimately show ?thesis
    unfolding avg_rank_def using e by (intro rank_gap)
qed

lemma rank_keeps_variance:
  assumes "sum_sq_dev xs \<noteq> 0"
  shows "sum_sq_dev (rank xs) \<noteq> 0"
proof -
  from assms obtain x y where xy: "x \<in> set xs" "y \<in> set xs" "x \<noteq> y"
    by (auto simp: sum_sq_dev_zero_constant)
  then have "avg_rank xs x \<noteq> avg_rank xs y"
    using avg_rank_mono [of x y xs] avg_rank_mono [of y x xs]
    by (cases "x < y") auto
  moreover from xy have "avg_rank xs x \<in> set (rank xs)" "avg_rank xs y \<in> set (rank xs)"
    by (simp_all add: rank_def)
  ultimately show ?thesis
    unfolding sum_sq_dev_zero_constant by blast
qed

lemma spearman_diag:
  assumes "sum_sq_dev xs \<noteq> 0"
  shows "spearman (map (\<lambda>x. (x, x)) xs) = Some 1"
proof -
  have "zip (rank xs) (rank xs) = map (\<lambda>x. (x, x)) (rank xs)"
    by (simp add: zip_same_conv_map)
  then have "spearman (map (\<lambda>x. (x, x)) xs) = pearson (map (\<lambda>x. (x, x)) (rank xs))"
    by (simp add: spearman_def comp_def)
  with pearson_diag [OF rank_keeps_variance [OF assms]] show ?thesis
    by simp
qed

subsection \<open>Kendall\<close>

lemma row_pairs_map: "row_pairs (map f ps) = map (map_prod f f) (row_pairs ps)"
  by (induction ps) simp_all

lemma swapped_pair:
  "concordant \<circ> map_prod prod.swap prod.swap = concordant"
  "discordant \<circ> map_prod prod.swap prod.swap = discordant"
  "x_tied \<circ> map_prod prod.swap prod.swap = y_tied"
  "y_tied \<circ> map_prod prod.swap prod.swap = x_tied"
  by (auto simp: fun_eq_iff concordant_def discordant_def x_tied_def y_tied_def mult.commute)

lemma kendall_swap: "kendall (map prod.swap ps) = kendall ps"
  by (simp add: kendall_def Let_def row_pairs_map swapped_pair mult.commute disj_commute)

lemma three_way_count:
  assumes "\<And>x. P x \<Longrightarrow> \<not> R x" and "\<And>x. Q x \<Longrightarrow> \<not> R x" and "\<And>x. P x \<Longrightarrow> \<not> Q x"
  shows "length (filter P xs) + length (filter Q xs) + length (filter R xs) \<le> length xs"
  using assms by (induction xs) auto

lemma pairs_not_x_tied:
  "length (filter concordant rp) + length (filter discordant rp) + length (filter x_tied rp)
   \<le> length rp"
  by (rule three_way_count)
    (auto simp: concordant_def discordant_def x_tied_def split: prod.splits)

lemma pairs_not_y_tied:
  "length (filter concordant rp) + length (filter discordant rp) + length (filter y_tied rp)
   \<le> length rp"
  by (rule three_way_count)
    (auto simp: concordant_def discordant_def y_tied_def split: prod.splits)

lemma kendall_range:
  assumes "kendall ps = Some r"
  shows "- 1 \<le> r \<and> r \<le> 1"
proof -
  define rp where "rp = row_pairs ps"
  define con where "con = length (filter concordant rp)"
  define dis where "dis = length (filter discordant rp)"
  define a where "a = length rp - length (filter x_tied rp)"
  define b where "b = length rp - length (filter y_tied rp)"
  from assms have r: "r = (real con - real dis) / sqrt (real a * real b)"
    and ne: "length (filter x_tied rp) \<noteq> length rp" "length (filter y_tied rp) \<noteq> length rp"
    by (auto simp: kendall_def Let_def rp_def con_def dis_def a_def b_def split: if_splits)
  from ne have "length (filter x_tied rp) < length rp" and "length (filter y_tied rp) < length rp"
    by (metis length_filter_le le_neq_implies_less)+
  then have "0 < a" and "0 < b"
    by (simp_all add: a_def b_def)
  then have pos: "0 < sqrt (real a * real b)"
    by simp
  have "con + dis \<le> a" and "con + dis \<le> b"
    using pairs_not_x_tied [of rp] pairs_not_y_tied [of rp]
    by (simp_all add: con_def dis_def a_def b_def)
  then have "(con + dis) * (con + dis) \<le> a * b"
    by (rule mult_le_mono)
  then have "real (con + dis) * real (con + dis) \<le> real a * real b"
    by (metis of_nat_mult of_nat_le_iff)
  moreover have "(real con - real dis) * (real con - real dis) \<le> real (con + dis) * real (con + dis)"
    by (simp add: algebra_simps)
  ultimately have "(real con - real dis) * (real con - real dis) \<le> real a * real b"
    by linarith
  also have "real a * real b = sqrt (real a * real b) * sqrt (real a * real b)"
    by simp
  finally show ?thesis
    using ratio_range [OF _ pos] r by simp
qed

subsection \<open>The entries of the matrix\<close>

lemma complete_pairs_simps [simp]:
  "complete_pairs [] ys = []"
  "complete_pairs xs [] = []"
  "complete_pairs (x # xs) (y # ys) =
     (case x of None \<Rightarrow> complete_pairs xs ys
      | Some a \<Rightarrow> (case y of None \<Rightarrow> complete_pairs xs ys | Some b \<Rightarrow> (a, b) # complete_pairs xs ys))"
  by (simp_all add: complete_pairs_def List.map_filter_def split: option.splits)

lemma complete_pairs_swap: "complete_pairs ys xs = map prod.swap (complete_pairs xs ys)"
  by (induction xs ys rule: list_induct2') (simp_all split: option.splits)

lemma complete_pairs_diag: "complete_pairs xs xs = map (\<lambda>x. (x, x)) (dropna xs)"
  by (induction xs) (simp_all split: option.splits)

lemma corr_nth:
  assumes "i < length cols" and "j < length cols"
  shows "corr m cols ! i ! j = corr_entry m (i, cols ! i) (j, cols ! j)"
  using assms by (simp add: corr_def Let_def)

lemma corr_entry_sym: "corr_entry m (i, xs) (j, ys) = corr_entry m (j, ys) (i, xs)"
proof -
  have "complete_pairs ys xs = map prod.swap (complete_pairs xs ys)"
    by (rule complete_pairs_swap)
  then show ?thesis
    by (cases m) (auto simp: corr_entry_def Let_def pearson_swap spearman_swap kendall_swap)
qed

lemma corr_entry_range:
  assumes "corr_entry m a b = Some r"
  shows "- 1 \<le> r \<and> r \<le> 1"
  using assms
  by (cases m)
    (auto simp: corr_entry_def Let_def split: if_splits
      dest: pearson_range spearman_range kendall_range)

lemma corr_entry_diag:
  assumes "sum_sq_dev (dropna xs) \<noteq> 0"
  shows "corr_entry m (i, xs) (i, xs) = Some 1"
proof -
  from assms have "dropna xs \<noteq> []"
    by (auto simp: sum_sq_dev_def)
  with assms show ?thesis
    by (cases m) (simp_all add: corr_entry_def complete_pairs_diag pearson_diag spearman_diag)
qed

lemma length_numeric_frame: "length (numeric_frame df) = length (numeric_cols df)"
proof (induction df)
  case Nil
  then show ?case
    by (simp add: numeric_frame_def numeric_cols_def List.map_filter_def)
next
  case (Cons a df)
  obtain name c where a: "a = (name, c)"
    by (cases a)
  from Cons show ?case
    by (cases c) (simp_all add: a numeric_frame_def numeric_cols_def List.map_filter_def)
qed

lemmas corr_eval = correlate_def numeric_cols_def numeric_frame_def List.map_filter_def
  corr_def corr_entry_def pearson_def spearman_def kendall_def sum_sq_dev_def sum_co_dev_def
  mean_def rank_def avg_rank_def concordant_def discordant_def x_tied_def y_tied_def

text \<open>
  Claim C4, as the claim states it, fails: two numeric columns that both vary, but share
  a single complete row, have an undefined coefficient (\<^verbatim>\<open>nan\<close>) under each of the three
  methods, which is no number of the interval from -1 to 1.
\<close>

theorem sparse_pair_undefined:
  "sum_sq_dev [1, 2] \<noteq> 0 \<and> sum_sq_dev [3, 4] \<noteq> 0
   \<and> correlate sparse_pair Pearson = Some [[Some 1, None], [None, Some 1]]
   \<and> correlate sparse_pair Spearman = Some [[Some 1, None], [None, Some 1]]
   \<and> correlate sparse_pair Kendall = Some [[Some 1, None], [None, Some 1]]"
  by (simp add: sparse_pair_def corr_eval Let_def real_sqrt_divide)

text \<open>
  Claim C4, amended. For every data frame with at least two numeric columns and each of
  the three methods, the matrix is symmetric, every entry that is defined lies between
  -1 and 1, and the diagonal entry of a column is 1 unless the column has no variance
  (its present values are all equal, or it has none).
\<close>

theorem corr_matrix_properties:
  assumes "correlate df m = Some M"
    and "i < length (numeric_cols df)" and "j < length (numeric_cols df)"
  shows "M ! i ! j = M ! j ! i
         \<and> (\<forall>r. M ! i ! j = Some r \<longrightarrow> - 1 \<le> r \<and> r \<le> 1)
         \<and> (sum_sq_dev (dropna (numeric_frame df ! i)) \<noteq> 0 \<longrightarrow> M ! i ! i = Some 1)"
proof -
  let ?cols = "numeric_frame df"
  from assms(1) have M: "M = corr m ?cols"
    by (simp add: correlate_def split: if_splits)
  from assms(2,3) have i: "i < length ?cols" and j: "j < length ?cols"
    by (simp_all add: length_numeric_frame)
  have "M ! i ! j = M ! j ! i"
    unfolding M by (simp only: corr_nth [OF i j] corr_nth [OF j i] corr_entry_sym)
  moreover have "- 1 \<le> r \<and> r \<le> 1" if "M ! i ! j = Some r" for r
    using that unfolding M by (simp only: corr_nth [OF i j]) (rule corr_entry_range)
  moreover have "M ! i ! i = Some 1" if "sum_sq_dev (dropna (?cols ! i)) \<noteq> 0"
    unfolding M by (simp only: corr_nth [OF i i] corr_entry_diag [OF that])
  ultimately show ?thesis
    by blast
qed

theorem corr_matrix_properties_witness:
  "correlate opposite_pair Pearson = Some [[Some 1, Some (- 1)], [Some (- 1), Some 1]]
   \<and> length (numeric_cols opposite_pair) = 2
   \<and> sum_sq_dev (dropna (numeric_frame opposite_pair ! 0)) = 2
   \<and> [[Some 1, Some (- 1)], [Some (- 1), Some (1::real)]] ! 0 ! 1
       = [[Some 1, Some (- 1)], [Some (- 1), Some 1]] ! 1 ! 0
   \<and> [[Some 1, Some (- 1)], [Some (- 1), Some (1::real)]] ! 0 ! 0 = Some 1"
proof -
  let ?M = "[[Some 1, Some (- 1)], [Some (- 1), Some (1::real)]]"
  have c: "correlate opposite_pair Pearson = Some ?M"
    by (simp add: opposite_pair_def corr_eval Let_def)
  have n: "length (numeric_cols opposite_pair) = 2"
    by (simp add: opposite_pair_def numeric_cols_def)
  have i: "0 < length (numeric_cols opposite_pair)" and j: "1 < length (numeric_cols opposite_pair)"
    by (simp_all add: n)
  have v: "sum_sq_dev (dropna (numeric_frame opposite_pair ! 0)) = 2"
    by (simp add: opposite_pair_def numeric_frame_def List.map_filter_def sum_sq_dev_def mean_def)
  from corr_matrix_properties [OF c i j] v c n show ?thesis
    by simp
qed

section \<open>The t-test: guards and results\<close>

text \<open>
  Claim C2. The two labels are selected, and the two samples extracted, only under the
  guard \<^verbatim>\<open>if len(groups) >= 2\<close>; so a comparison request comes with at least two distinct
  present labels in the grouping column. For every such request, a sample of at most
  one present value, on either side and whatever the size of the other, ends the
  comparison with the message of \<^verbatim>\<open>st.error\<close>: no test is run and nothing is raised.
\<close>

theorem compare_insufficient_sample:
  assumes "label_col df group_col = Some labels"
    and "number_col df numeric_col = Some cells"
    and "2 \<le> length (groups labels)"
    and "length (sample labels cells group1) \<le> 1 \<or> length (sample labels cells group2) \<le> 1"
  shows "compare sf df group_col numeric_col group1 group2
         = Error ''Not enough data points in one of the groups.''"
  using assms by (auto simp: compare_def Let_def)

theorem compare_insufficient_sample_witness:
  "label_col lone_value ''g'' = Some [Some ''A'', Some ''A'', Some ''B'', Some ''B'', Some ''B'']
   \<and> number_col lone_value ''v'' = Some [Some 1, None, Some 2, Some 3, Some 4]
   \<and> 2 \<le> length (groups [Some ''A'', Some ''A'', Some ''B'', Some ''B'', Some ''B''])
   \<and> length (sample [Some ''A'', Some ''A'', Some ''B'', Some ''B'', Some ''B'']
                [Some 1, None, Some 2, Some 3, Some 4] ''A'') \<le> 1
   \<and> length (sample [Some ''A'', Some ''A'', Some ''B'', Some ''B'', Some ''B'']
                [Some 1, None, Some 2, Some 3, Some 4] ''B'') = 3
   \<and> compare cauchy_sf lone_value ''g'' ''v'' ''A'' ''B''
       = Error ''Not enough data points in one of the groups.''
   \<and> compare cauchy_sf lone_value ''g'' ''v'' ''B'' ''A''
       = Error ''Not enough data points in one of the groups.''"
proof -
  let ?ls = "[Some ''A'', Some ''A'', Some ''B'', Some ''B'', Some ''B'']"
  let ?vs = "[Some 1, None, Some 2, Some 3, Some (4::real)]"
  have l: "label_col lone_value ''g'' = Some ?ls"
    by (simp add: lone_value_def label_col_def)
  have n: "number_col lone_value ''v'' = Some ?vs"
    by (simp add: lone_value_def number_col_def)
  have g: "2 \<le> length (groups ?ls)"
    by (simp add: groups_def unique_def)
  have a: "length (sample ?ls ?vs ''A'') \<le> 1"
    by (simp add: sample_def)
  have b: "length (sample ?ls ?vs ''B'') = 3"
    by (simp add: sample_def)
  from a have ab: "length (sample ?ls ?vs ''A'') \<le> 1 \<or> length (sample ?ls ?vs ''B'') \<le> 1"
    and ba: "length (sample ?ls ?vs ''B'') \<le> 1 \<or> length (sample ?ls ?vs ''A'') \<le> 1"
    by simp_all
  show ?thesis
    using l n g a b compare_insufficient_sample [OF l n g ab, of cauchy_sf]
      compare_insufficient_sample [OF l n g ba, of cauchy_sf]
    by simp
qed

text \<open>
  Claim C9, as the claim states it, fails: with a single label in the grouping column
  the section shows nothing at all; no failure is reported.
\<close>

theorem one_label_not_reported:
  "groups [Some ''A'', Some ''A'', None, Some ''A''] = [''A'']
   \<and> compare cauchy_sf one_label ''g'' ''v'' ''A'' ''A'' = No_Output
   \<and> \<not> reported_failure (compare cauchy_sf one_label ''g'' ''v'' ''A'' ''A'')"
  by (simp add: compare_def one_label_def label_col_def number_col_def groups_def unique_def
      reported_failure_def)

text \<open>
  Claim C9, amended. The comparison is silent (no selection of labels, no test, no
  message) exactly when the grouping column has fewer than two distinct present
  labels, whatever labels are asked for; the sample-size check and the test are reached
  only with at least two.
\<close>

theorem compare_silent_iff:
  assumes "label_col df group_col = Some labels"
    and "number_col df numeric_col = Some cells"
  shows "(compare sf df group_col numeric_col group1 group2 = No_Output)
         = (length (groups labels) < 2)"
  using assms by (auto simp: compare_def Let_def split: prod.splits)

theorem compare_silent_iff_witness:
  "label_col one_label ''g'' = Some [Some ''A'', Some ''A'', None, Some ''A'']
   \<and> number_col one_label ''v'' = Some [Some 1, Some 2, Some 3, Some 4]
   \<and> length (groups [Some ''A'', Some ''A'', None, Some ''A'']) < 2
   \<and> compare cauchy_sf one_label ''g'' ''v'' ''A'' ''B'' = No_Output"
proof -
  let ?ls = "[Some ''A'', Some ''A'', None, Some ''A'']"
  let ?vs = "[Some 1, Some 2, Some 3, Some (4::real)]"
  have l: "label_col one_label ''g'' = Some ?ls"
    by (simp add: one_label_def label_col_def)
  have n: "number_col one_label ''v'' = Some ?vs"
    by (simp add: one_label_def number_col_def)
  have g: "length (groups ?ls) < 2"
    by (simp add: groups_def unique_def)
  show ?thesis
    using l n g compare_silent_iff [OF l n, of cauchy_sf "''A''" "''B''"] by simp
qed

lemma ttest_ind_equal_means:
  assumes "mean a = mean b" and "\<forall>d. sf d 0 = 1 / 2"
  shows "snd (ttest_ind sf a b) = Fin 1 \<or> snd (ttest_ind sf a b) = NaN"
proof -
  have "2 * sf d 0 = 1" for d
    using assms(2) by (simp add: mult.commute)
  with assms(1) show ?thesis
    by (simp add: ttest_ind_def Let_def fdiv_def)
qed

lemma compare_balanced:
  "compare cauchy_sf balanced ''g'' ''v'' ''A'' ''B''
     = T_Test \<lparr>t_stat = Fin 0, dof = 2, p_value = Fin 1, mean1 = 2, mean2 = 2,
         significant = False\<rparr>"
  by (simp add: compare_def balanced_def eval_defs Let_def cauchy_sf_def)

text \<open>
  Claim C5. Whenever the test runs, the observation is the significant one exactly when
  the p-value is strictly below 0.05 (a \<^verbatim>\<open>nan\<close> p-value is not below anything). Two
  samples with the same mean are not significant: the statistic is 0 or \<^verbatim>\<open>nan\<close>, and the
  two-tailed p-value is 1 or \<^verbatim>\<open>nan\<close>, Student's distribution being symmetric
  (\<open>sf d 0 = 1 / 2\<close>). Equal variances are not needed.
\<close>

theorem significance_flag:
  assumes "label_col df group_col = Some labels"
    and "number_col df numeric_col = Some cells"
    and "compare sf df group_col numeric_col group1 group2 = T_Test r"
  shows "significant r = fless (p_value r) (5 / 100)
         \<and> ((\<forall>d. sf d 0 = 1 / 2)
              \<and> mean (sample labels cells group1) = mean (sample labels cells group2)
            \<longrightarrow> \<not> significant r)"
proof -
  let ?a = "sample labels cells group1" and ?b = "sample labels cells group2"
  from assms have r: "r = \<lparr>t_stat = fst (ttest_ind sf ?a ?b),
        dof = int (length ?a) + int (length ?b) - 2,
        p_value = snd (ttest_ind sf ?a ?b),
        mean1 = mean ?a, mean2 = mean ?b,
        significant = fless (snd (ttest_ind sf ?a ?b)) (5 / 100)\<rparr>"
    by (auto simp: compare_def Let_def split: if_splits prod.splits)
  have flag: "significant r = fless (p_value r) (5 / 100)"
    unfolding r by simp
  have "\<not> significant r" if "\<forall>d. sf d 0 = 1 / 2" and "mean ?a = mean ?b"
  proof -
    from that ttest_ind_equal_means [of ?a ?b sf]
    have "\<not> fless (snd (ttest_ind sf ?a ?b)) (5 / 100)" by auto
    then show ?thesis unfolding r by simp
  qed
  with flag show ?thesis by blast
qed

theorem significance_flag_witness:
  "label_col balanced ''g'' = Some [Some ''A'', Some ''B'', Some ''A'', Some ''B'']
   \<and> number_col balanced ''v'' = Some [Some 1, Some 1, Some 3, Some 3]
   \<and> (\<forall>d. cauchy_sf d 0 = 1 / 2)
   \<and> mean (sample [Some ''A'', Some ''B'', Some ''A'', Some ''B'']
             [Some 1, Some 1, Some 3, Some 3] ''A'') = 2
   \<and> mean (sample [Some ''A'', Some ''B'', Some ''A'', Some ''B'']
             [Some 1, Some 1, Some 3, Some 3] ''B'') = 2
   \<and> compare cauchy_sf balanced ''g'' ''v'' ''A'' ''B''
       = T_Test \<lparr>t_stat = Fin 0, dof = 2, p_value = Fin 1, mean1 = 2, mean2 = 2,
           significant = False\<rparr>
   \<and> \<not> significant \<lparr>t_stat = Fin 0, dof = 2, p_value = Fin 1, mean1 = 2, mean2 = 2,
           significant = False\<rparr>
   \<and> \<not> fless (Fin 1) (5 / 100)"
proof -
  let ?ls = "[Some ''A'', Some ''B'', Some ''A'', Some ''B'']"
  let ?vs = "[Some 1, Some 1, Some 3, Some (3::real)]"
  have l: "label_col balanced ''g'' = Some ?ls"
    by (simp add: balanced_def label_col_def)
  have n: "number_col balanced ''v'' = Some ?vs"
    by (simp add: balanced_def number_col_def)
  have m: "mean (sample ?ls ?vs ''A'') = 2" "mean (sample ?ls ?vs ''B'') = 2"
    by (simp_all add: sample_def mean_def)
  show ?thesis
    using l n m cauchy_sf_zero compare_balanced significance_flag [OF l n compare_balanced]
    by simp
qed

text \<open>
  Claim C1 holds of Welch's test and fails on the program: for the samples \<open>[0, 2]\<close> and
  \<open>[0, 1, 2]\<close> the section reports \<open>2 + 3 - 2 = 3\<close> degrees of freedom, while the p-value
  next to it is taken at the Welch--Satterthwaite value \<open>32 / 19\<close>.
\<close>

theorem reported_dof_is_pooled:
  "compare sf unequal_groups ''g'' ''v'' ''A'' ''B''
     = T_Test \<lparr>t_stat = Fin 0, dof = 3, p_value = Fin (2 * sf (32 / 19) 0),
         mean1 = 1, mean2 = 1, significant = (2 * sf (32 / 19) 0 < 5 / 100)\<rparr>
   \<and> welch_satterthwaite_df [0, 2] [0, 1, 2] = Fin (32 / 19)"
  by (simp add: compare_def unequal_groups_def eval_defs Let_def)

text \<open>
  Claim C10, as the claim states it, fails: the same label on both sides is accepted and
  the test runs, but on a sample whose values are all equal the t-statistic is \<^verbatim>\<open>nan\<close>
  (zero divided by zero), not 0.
\<close>

theorem constant_sample_nan:
  "sample [Some ''A'', Some ''A'', Some ''B''] [Some 5, Some 5, Some 1] ''A'' = [5, 5]
   \<and> compare cauchy_sf constant_group ''g'' ''v'' ''A'' ''A''
       = T_Test \<lparr>t_stat = NaN, dof = 2, p_value = NaN, mean1 = 5, mean2 = 5,
           significant = False\<rparr>"
  by (simp add: compare_def constant_group_def eval_defs Let_def)

text \<open>
  Claim C10, amended. With at least two labels in the grouping column and a sample of
  more than one value, the same label for both groups is accepted: the test runs on the
  sample against itself, the two means are equal, and the t-statistic is 0 when the
  sample has a non-zero variance and \<^verbatim>\<open>nan\<close> when it has none.
\<close>

theorem same_label_runs_test:
  assumes "label_col df group_col = Some labels"
    and "number_col df numeric_col = Some cells"
    and "2 \<le> length (groups labels)"
    and "1 < length (sample labels cells g)"
  shows "\<exists>r. compare sf df group_col numeric_col g g = T_Test r
             \<and> mean1 r = mean2 r
             \<and> t_stat r = (if variance (sample labels cells g) = 0 then NaN else Fin 0)"
  using assms
  by (auto simp: compare_def Let_def ttest_ind_def fdiv_def split: prod.splits)

theorem same_label_runs_test_witness:
  "label_col balanced ''g'' = Some [Some ''A'', Some ''B'', Some ''A'', Some ''B'']
   \<and> number_col balanced ''v'' = Some [Some 1, Some 1, Some 3, Some 3]
   \<and> 2 \<le> length (groups [Some ''A'', Some ''B'', Some ''A'', Some ''B''])
   \<and> sample [Some ''A'', Some ''B'', Some ''A'', Some ''B'']
         [Some 1, Some 1, Some 3, Some 3] ''A'' = [1, 3]
   \<and> (\<exists>r. compare cauchy_sf balanced ''g'' ''v'' ''A'' ''A'' = T_Test r
           \<and> mean1 r = mean2 r \<and> t_stat r = Fin 0)"
proof -
  let ?ls = "[Some ''A'', Some ''B'', Some ''A'', Some ''B'']"
  let ?vs = "[Some 1, Some 1, Some 3, Some (3::real)]"
  have l: "label_col balanced ''g'' = Some ?ls"
    by (simp add: balanced_def label_col_def)
  have n: "number_col balanced ''v'' = Some ?vs"
    by (simp add: balanced_def number_col_def)
  have g: "2 \<le> length (groups ?ls)"
    by (simp add: groups_def unique_def)
  have s: "sample ?ls ?vs ''A'' = [1, 3]"
    by (simp add: sample_def)
  have k: "1 < length (sample ?ls ?vs ''A'')"
    by (simp add: s)
  have v: "variance [1, 3] \<noteq> 0"
    by (simp add: variance_def sum_sq_dev_def mean_def)
  show ?thesis
    using l n g s v same_label_runs_test [OF l n g k, of cauchy_sf] by simp
qed

end
